theory Spec2Isabelle
  imports Main
begin

section \<open>Strings and the regular expressions of server.js\<close>

text \<open>
  A JavaScript string is a sequence of UTF-16 code units. The model writes it as a
  \<open>string\<close>, one \<open>char\<close> for one code unit below 256; the three character classes
  the source uses are read on that range.
\<close>

text \<open>\<^verbatim>\<open>\d\<close> without the unicode flag: the ten ASCII digits.\<close>

definition is_digit :: "char \<Rightarrow> bool" where
  "is_digit c = (c \<in> set ''0123456789'')"

text \<open>\<^verbatim>\<open>[1-9]\<close>\<close>

definition is_digit19 :: "char \<Rightarrow> bool" where
  "is_digit19 c = (c \<in> set ''123456789'')"

text \<open>\<^verbatim>\<open>\D\<close>: the complement of \<^verbatim>\<open>\d\<close>.\<close>

definition is_non_digit :: "char \<Rightarrow> bool" where
  "is_non_digit c = (\<not> is_digit c)"

text \<open>
  \<^verbatim>\<open>\s\<close> below code unit 256: TAB, LF, VT, FF, CR, SPACE and the no-break space.
\<close>

definition is_space :: "char \<Rightarrow> bool" where
  "is_space c = (c \<in> set [CHR 0x09, CHR 0x0A, CHR 0x0B, CHR 0x0C, CHR 0x0D, CHR '' '', CHR 0xA0])"

text \<open>
  \<^verbatim>\<open>s.replace(/C/g, '')\<close> for a one-character class \<open>C\<close>: every code unit of the
  class is dropped, the others stay in order.
\<close>

definition replace_all_empty :: "(char \<Rightarrow> bool) \<Rightarrow> string \<Rightarrow> string" where
  "replace_all_empty cls s = filter (\<lambda>c. \<not> cls c) s"

text \<open>
  A pattern of the shape \<^verbatim>\<open>^ C1{lo1,hi1} C2{lo2,hi2} ... $\<close>: a sequence of character
  classes, each with its repetition bounds, anchored at both ends (\<^verbatim>\<open>$\<close> without the
  \<open>m\<close> flag is the end of the input). \<open>rx_test\<close> is \<^verbatim>\<open>RegExp.prototype.test\<close>: it
  answers whether some way of splitting the input matches, which is what the
  backtracking matcher decides.
\<close>

type_synonym 'a rx_item = "('a \<Rightarrow> bool) \<times> nat \<times> nat"

fun rx_test :: "'a rx_item list \<Rightarrow> 'a list \<Rightarrow> bool" where
  "rx_test [] s = (s = [])"
| "rx_test ((cls, lo, hi) # r) s =
     list_ex (\<lambda>k. k \<le> length s \<and> list_all cls (take k s) \<and> rx_test r (drop k s)) [lo..<Suc hi]"

text \<open>\<^verbatim>\<open>String.prototype.startsWith\<close>\<close>

definition startsWith :: "string \<Rightarrow> string \<Rightarrow> bool" where
  "startsWith s p = (take (length p) s = p)"

section \<open>PhoneFormatter: validatePhoneNumber and formatPhoneNumber\<close>

text \<open>\<^verbatim>\<open>/^\+?[1-9]\d{1,14}$/\<close>\<close>

definition e164Regex :: "char rx_item list" where
  "e164Regex = [((\<lambda>c. c = CHR ''+''), 0, 1), (is_digit19, 1, 1), (is_digit, 1, 14)]"

definition validatePhoneNumber :: "string \<Rightarrow> bool" where
  "validatePhoneNumber phone = rx_test e164Regex (replace_all_empty is_space phone)"

definition formatPhoneNumber :: "string \<Rightarrow> string" where
  "formatPhoneNumber phone =
     (let cleaned = replace_all_empty is_non_digit phone in
      if \<not> startsWith cleaned ''+'' then
        (let cleaned = (if length cleaned = 10 then ''1'' @ cleaned else cleaned) in
         ''+'' @ cleaned)
      else cleaned)"

text \<open>
  The wording of the specification for \<open>validate\<close>, to be compared with the pattern:
  an optional leading plus sign, a first digit 1 to 9, then 1 to 14 further digits.
\<close>

definition strip_plus :: "string \<Rightarrow> string" where
  "strip_plus s = (case s of [] \<Rightarrow> [] | c # cs \<Rightarrow> if c = CHR ''+'' then cs else s)"

definition e164_like :: "string \<Rightarrow> bool" where
  "e164_like s =
     (case strip_plus s of
        [] \<Rightarrow> False
      | d # ds \<Rightarrow> is_digit19 d \<and> 1 \<le> length ds \<and> length ds \<le> 14 \<and> list_all is_digit ds)"


text \<open>
  The same function on full code units. A JavaScript string is a list of UTF-16 code
  units, here natural numbers; \<^verbatim>\<open>\s\<close> is then the whole class of the language:
  TAB, LF, VT, FF, CR, SPACE, the no-break space, U+1680, U+2000 to U+200A, the line
  and paragraph separators U+2028 and U+2029, U+202F, U+205F, U+3000 and U+FEFF. The
  digits are the code units 0x30 to 0x39 and the plus sign is 0x2B.
\<close>

definition js_space :: "nat \<Rightarrow> bool" where
  "js_space u =
     (u \<in> set [0x09, 0x0A, 0x0B, 0x0C, 0x0D, 0x20, 0xA0, 0x1680, 0x2028, 0x2029, 0x202F,
                0x205F, 0x3000, 0xFEFF]
      \<or> (0x2000 \<le> u \<and> u \<le> 0x200A))"

definition e164Regex_units :: "nat rx_item list" where
  "e164Regex_units =
     [((\<lambda>u. u = 0x2B), 0, 1),
      ((\<lambda>u. 0x31 \<le> u \<and> u \<le> 0x39), 1, 1),
      ((\<lambda>u. 0x30 \<le> u \<and> u \<le> 0x39), 1, 14)]"

definition validatePhoneNumber_units :: "nat list \<Rightarrow> bool" where
  "validatePhoneNumber_units phone =
     rx_test e164Regex_units (filter (\<lambda>u. \<not> js_space u) phone)"

text \<open>The wording of the specification for \<open>validate\<close>, on code units.\<close>

definition strip_plus_units :: "nat list \<Rightarrow> nat list" where
  "strip_plus_units u = (case u of [] \<Rightarrow> [] | c # cs \<Rightarrow> if c = 0x2B then cs else u)"

definition e164_like_units :: "nat list \<Rightarrow> bool" where
  "e164_like_units u =
     (case strip_plus_units u of
        [] \<Rightarrow> False
      | d # ds \<Rightarrow>
          0x31 \<le> d \<and> d \<le> 0x39 \<and> 1 \<le> length ds \<and> length ds \<le> 14
          \<and> list_all (\<lambda>c. 0x30 \<le> c \<and> c \<le> 0x39) ds)"

section \<open>Request bodies: the values \<^verbatim>\<open>express.json()\<close> hands to a route\<close>

text \<open>
  A parsed JSON value, with \<open>JUndefined\<close> for a field that is absent. An object lists
  its own properties, each key once. Numbers are IEEE doubles in the source; the model
  leaves their type \<open>'n\<close> open and takes what the runtime computes from them
  (\<^verbatim>\<open>ToBoolean\<close>, \<^verbatim>\<open>ToString\<close>, \<^verbatim>\<open>toFixed(3)\<close>) from the record \<open>host\<close> below.
\<close>

datatype 'n jv =
    JUndefined
  | JNull
  | JBool bool
  | JNum 'n
  | JStr string
  | JArr "'n jv list"
  | JObj "(string \<times> 'n jv) list"

text \<open>The only exception the two routes can meet on such values.\<close>

datatype js_error = TypeError

text \<open>
  What the runtime and the process environment supply: the number built-ins, the text
  of the two message templates (the alert text renders the time with
  \<^verbatim>\<open>toLocaleString\<close>, so it depends on the locale), and the environment variable
  behind \<^verbatim>\<open>FROM_NUMBER\<close>.
\<close>

record 'n host =
  num_truthy :: "'n \<Rightarrow> bool"
  num_toString :: "'n \<Rightarrow> string"
  num_toFixed3 :: "'n \<Rightarrow> string"
  alert_text :: "string \<Rightarrow> 'n \<Rightarrow> 'n \<Rightarrow> 'n jv \<Rightarrow> string"
  test_text :: string
  TWILIO_WHATSAPP_NUMBER :: "string option"

text \<open>\<^verbatim>\<open>process.env.TWILIO_WHATSAPP_NUMBER || 'whatsapp:+14155238886'\<close>\<close>

definition FROM_NUMBER :: "'n host \<Rightarrow> string" where
  "FROM_NUMBER H =
     (case TWILIO_WHATSAPP_NUMBER H of
        None \<Rightarrow> ''whatsapp:+14155238886''
      | Some v \<Rightarrow> if v = [] then ''whatsapp:+14155238886'' else v)"

text \<open>\<^verbatim>\<open>ToBoolean\<close>, as \<^verbatim>\<open>!x\<close> and \<^verbatim>\<open>x || y\<close> read a value.\<close>

fun truthy :: "'n host \<Rightarrow> 'n jv \<Rightarrow> bool" where
  "truthy H JUndefined = False"
| "truthy H JNull = False"
| "truthy H (JBool b) = b"
| "truthy H (JNum x) = num_truthy H x"
| "truthy H (JStr s) = (s \<noteq> [])"
| "truthy H (JArr xs) = True"
| "truthy H (JObj kvs) = True"

text \<open>\<^verbatim>\<open>a || b\<close>\<close>

definition js_or :: "'n host \<Rightarrow> 'n jv \<Rightarrow> 'n jv \<Rightarrow> 'n jv" where
  "js_or H a b = (if truthy H a then a else b)"

text \<open>
  \<^verbatim>\<open>v.key\<close> for the keys the routes read (\<open>lat\<close>, \<open>lng\<close>, \<open>phone\<close>, \<open>name\<close>): a
  TypeError on \<open>undefined\<close> and \<open>null\<close>, the own property of an object, and
  \<open>undefined\<close> otherwise, since no prototype of a string, number, boolean, array or
  plain object defines one of these keys.
\<close>

fun get_prop :: "'n jv \<Rightarrow> string \<Rightarrow> js_error + 'n jv" where
  "get_prop JUndefined key = Inl TypeError"
| "get_prop JNull key = Inl TypeError"
| "get_prop (JObj kvs) key = Inr (case map_of kvs key of None \<Rightarrow> JUndefined | Some v \<Rightarrow> v)"
| "get_prop v key = Inr JUndefined"

text \<open>\<^verbatim>\<open>Array.isArray\<close> and the elements of an array.\<close>

fun isArray :: "'n jv \<Rightarrow> bool" where
  "isArray (JArr xs) = True"
| "isArray v = False"

fun elems :: "'n jv \<Rightarrow> 'n jv list" where
  "elems (JArr xs) = xs"
| "elems v = []"

text \<open>\<^verbatim>\<open>Array.prototype.join\<close> with the default separator, on rendered elements.\<close>

fun join_comma :: "string list \<Rightarrow> string" where
  "join_comma [] = []"
| "join_comma [s] = s"
| "join_comma (s # t # ss) = s @ '','' @ join_comma (t # ss)"

text \<open>The first exception in a sequence of evaluations wins.\<close>

fun collect :: "(js_error + 'a) list \<Rightarrow> js_error + 'a list" where
  "collect [] = Inr []"
| "collect (Inl e # rs) = Inl e"
| "collect (Inr x # rs) = (case collect rs of Inl e \<Rightarrow> Inl e | Inr xs \<Rightarrow> Inr (x # xs))"

text \<open>
  \<^verbatim>\<open>ToString\<close>, which a template literal applies to each substitution. An array is
  joined, with \<open>null\<close> elements rendered empty. A plain object renders as
  \<^verbatim>\<open>[object Object]\<close> through \<^verbatim>\<open>Object.prototype.toString\<close>, unless it has an own
  property \<open>toString\<close>: parsed JSON holds no function, so that property is not
  callable, \<^verbatim>\<open>valueOf\<close> does not yield a primitive, and the conversion throws.
\<close>

fun ToString :: "'n host \<Rightarrow> 'n jv \<Rightarrow> js_error + string" where
  "ToString H JUndefined = Inr ''undefined''"
| "ToString H JNull = Inr ''null''"
| "ToString H (JBool b) = Inr (if b then ''true'' else ''false'')"
| "ToString H (JNum x) = Inr (num_toString H x)"
| "ToString H (JStr s) = Inr s"
| "ToString H (JArr xs) =
     (case collect (map (\<lambda>x. case x of JUndefined \<Rightarrow> Inr [] | JNull \<Rightarrow> Inr [] | _ \<Rightarrow> ToString H x) xs) of
        Inl e \<Rightarrow> Inl e
      | Inr ss \<Rightarrow> Inr (join_comma ss))"
| "ToString H (JObj kvs) =
     (if map_of kvs ''toString'' \<noteq> None then Inl TypeError else Inr ''[object Object]'')"

text \<open>The decimal numeral of a count, as a template literal renders it.\<close>

fun decimal :: "nat \<Rightarrow> string" where
  "decimal n =
     (if n < 10 then [''0123456789'' ! n]
      else decimal (n div 10) @ [''0123456789'' ! (n mod 10)])"

declare decimal.simps [simp del]

section \<open>The messaging capability and sendWhatsAppMessage\<close>

text \<open>
  \<^verbatim>\<open>client.messages.create\<close> is the external capability. It is given the calls made
  so far and the present one, and either resolves with a \<open>sid\<close> and a \<open>status\<close> or
  rejects with an error whose \<open>message\<close> is kept. The list of calls is the record of
  every invocation.
\<close>

record message_create =
  msg_body :: string
  msg_from :: string
  msg_to :: string

datatype twilio_outcome = Resolved string string | Rejected string

type_synonym twilio = "message_create list \<Rightarrow> message_create \<Rightarrow> twilio_outcome"

record send_result =
  success :: bool
  sid :: "string option"
  status :: "string option"
  error :: "string option"

definition sendWhatsAppMessage ::
  "'n host \<Rightarrow> twilio \<Rightarrow> message_create list \<Rightarrow> string \<Rightarrow> string
     \<Rightarrow> send_result \<times> message_create list" where
  "sendWhatsAppMessage H client calls to message =
     (let formattedNumber = formatPhoneNumber to;
          call = \<lparr>msg_body = message, msg_from = FROM_NUMBER H,
                  msg_to = ''whatsapp:'' @ formattedNumber\<rparr>
      in (case client calls call of
            Resolved i s \<Rightarrow> \<lparr>success = True, sid = Some i, status = Some s, error = None\<rparr>
          | Rejected m \<Rightarrow> \<lparr>success = False, sid = None, status = None, error = Some m\<rparr>,
          calls @ [call]))"

section \<open>AlertDeduplicator: the Map recentAlerts\<close>

text \<open>
  \<^verbatim>\<open>recentAlerts\<close> is a \<^verbatim>\<open>Map\<close> from the alert key to the reading of \<^verbatim>\<open>Date.now()\<close>
  at insertion (milliseconds). It is written as the list of its entries in insertion
  order.
\<close>

type_synonym alert_map = "(string \<times> int) list"

definition map_has :: "alert_map \<Rightarrow> string \<Rightarrow> bool" where
  "map_has m key = (map_of m key \<noteq> None)"

definition map_set :: "alert_map \<Rightarrow> string \<Rightarrow> int \<Rightarrow> alert_map" where
  "map_set m key time =
     (if map_has m key then map (\<lambda>(k, t). if k = key then (k, time) else (k, t)) m
      else m @ [(key, time)])"

text \<open>
  The cleanup loop: \<^verbatim>\<open>for (const [key, time] of recentAlerts.entries())\<close> deletes
  each entry with \<^verbatim>\<open>time < fiveMinutesAgo\<close> and keeps the others.
\<close>

fun sweep :: "alert_map \<Rightarrow> int \<Rightarrow> alert_map" where
  "sweep [] fiveMinutesAgo = []"
| "sweep ((key, time) # entries) fiveMinutesAgo =
     (if time < fiveMinutesAgo then sweep entries fiveMinutesAgo
      else (key, time) # sweep entries fiveMinutesAgo)"

text \<open>
  \<^verbatim>\<open>`${timestamp}-${location.lat.toFixed(3)}-${location.lng.toFixed(3)}`\<close>
\<close>

definition alertKey :: "'n host \<Rightarrow> 'n jv \<Rightarrow> 'n \<Rightarrow> 'n \<Rightarrow> js_error + string" where
  "alertKey H timestamp lat lng =
     (case ToString H timestamp of
        Inl e \<Rightarrow> Inl e
      | Inr ts \<Rightarrow> Inr (ts @ ''-'' @ num_toFixed3 H lat @ ''-'' @ num_toFixed3 H lng))"

section \<open>The route POST /api/send-alert\<close>

text \<open>
  The state the route reads and writes: the dedup map of the process and the calls made
  to the messaging capability so far. One request is run to its response; the 500 ms
  pause after each send is not part of the model.
\<close>

record state =
  recentAlerts :: alert_map
  twilio_calls :: "message_create list"

text \<open>
  The three clock readings of one request: \<^verbatim>\<open>Date.now()\<close> when the key is stored,
  \<^verbatim>\<open>Date.now()\<close> for the cleanup, and \<^verbatim>\<open>new Date()\<close> for the response.
\<close>

record clock =
  t_set :: int
  t_sweep :: int
  t_reply :: int

record 'n alert_request =
  contacts :: "'n jv"
  location :: "'n jv"
  timestamp :: "'n jv"
  userName :: "'n jv"

record 'n dispatch_result = send_result +
  phone :: string
  name :: "'n jv"

text \<open>
  A response: the HTTP status and the JSON body. The \<open>timestamp\<close> of the alert body
  holds the clock reading that \<^verbatim>\<open>toISOString\<close> renders.
\<close>

datatype 'n reply_body =
    ErrorBody string
  | AlertBody bool string "'n dispatch_result list" int
  | TestBody bool string send_result

type_synonym 'n reply = "nat \<times> 'n reply_body"

text \<open>
  \<^verbatim>\<open>typeof location.k === 'number'\<close>, with the number. It is read only after
  \<^verbatim>\<open>!location\<close> has been found false, so the property read cannot throw.
\<close>

definition number_prop :: "'n jv \<Rightarrow> string \<Rightarrow> 'n option" where
  "number_prop v key = (case get_prop v key of Inr (JNum x) \<Rightarrow> Some x | _ \<Rightarrow> None)"

text \<open>
  The message text. Its only substitution that can throw is
  \<^verbatim>\<open>${userName || 'User'}\<close>; the map link and the time are rendered by the host.
\<close>

definition composeAlert :: "'n host \<Rightarrow> 'n jv \<Rightarrow> 'n \<Rightarrow> 'n \<Rightarrow> 'n jv \<Rightarrow> js_error + string" where
  "composeAlert H user lat lng ts =
     (case ToString H (js_or H user (JStr ''User'')) of
        Inl e \<Rightarrow> Inl e
      | Inr who \<Rightarrow> Inr (alert_text H who lat lng ts))"

text \<open>
  \<^verbatim>\<open>const phone = contact.phone || contact; const name = contact.name || 'Emergency Contact'\<close>
\<close>

definition resolve_contact :: "'n host \<Rightarrow> 'n jv \<Rightarrow> js_error + ('n jv \<times> 'n jv)" where
  "resolve_contact H contact =
     (case get_prop contact ''phone'' of
        Inl e \<Rightarrow> Inl e
      | Inr p \<Rightarrow>
          (case get_prop contact ''name'' of
             Inl e \<Rightarrow> Inl e
           | Inr n \<Rightarrow> Inr (js_or H p contact, js_or H n (JStr ''Emergency Contact''))))"

text \<open>
  The loop over the contacts (the \<open>sendAll\<close> of the specification), with the array
  \<open>results\<close> and the calls made so far threaded through. \<^verbatim>\<open>phone.replace\<close> inside
  \<open>validatePhoneNumber\<close> exists only on a string: any other value of \<open>phone\<close> throws.
  An exception leaves the loop; the calls already made stay made.
\<close>

fun send_loop ::
  "'n host \<Rightarrow> twilio \<Rightarrow> string \<Rightarrow> 'n jv list \<Rightarrow> 'n dispatch_result list \<Rightarrow> message_create list
     \<Rightarrow> (js_error + 'n dispatch_result list) \<times> message_create list" where
  "send_loop H client message [] results calls = (Inr results, calls)"
| "send_loop H client message (contact # rest) results calls =
     (case resolve_contact H contact of
        Inl e \<Rightarrow> (Inl e, calls)
      | Inr (JStr p, nm) \<Rightarrow>
          if \<not> validatePhoneNumber p then
            send_loop H client message rest
              (results @ [\<lparr>success = False, sid = None, status = None,
                            error = Some ''Invalid phone number format'',
                            phone = p, name = nm\<rparr>])
              calls
          else
            (case sendWhatsAppMessage H client calls p message of
               (result, calls') \<Rightarrow>
                 send_loop H client message rest
                   (results @ [\<lparr>success = success result, sid = sid result,
                                 status = status result, error = error result,
                                 phone = p, name = nm\<rparr>])
                   calls')
      | Inr (other, nm) \<Rightarrow> (Inl TypeError, calls))"

definition sendAll ::
  "'n host \<Rightarrow> twilio \<Rightarrow> string \<Rightarrow> 'n jv list \<Rightarrow> message_create list
     \<Rightarrow> (js_error + 'n dispatch_result list) \<times> message_create list" where
  "sendAll H client message cs calls = send_loop H client message cs [] calls"

text \<open>
  \<^verbatim>\<open>`Alerts sent: ${successful} successful, ${failed} failed`\<close> with the two
  \<^verbatim>\<open>filter(...).length\<close> counts.
\<close>

definition summary :: "'n dispatch_result list \<Rightarrow> string" where
  "summary results =
     (let successful = length (filter (\<lambda>r. success r) results);
          failed = length (filter (\<lambda>r. \<not> success r) results)
      in ''Alerts sent: '' @ decimal successful @ '' successful, '' @ decimal failed @ '' failed'')"

text \<open>
  The checks under \<^verbatim>\<open>// Validate required fields\<close>: the response that ends the
  request, or the contacts and the two coordinates.
\<close>

definition validate_request :: "'n host \<Rightarrow> 'n alert_request \<Rightarrow> 'n reply + ('n jv list \<times> 'n \<times> 'n)" where
  "validate_request H req =
     (if \<not> truthy H (contacts req) \<or> \<not> isArray (contacts req) \<or> length (elems (contacts req)) = 0
      then Inl (400, ErrorBody ''No contacts provided'')
      else if \<not> truthy H (location req) then Inl (400, ErrorBody ''Invalid location data'')
      else
        (case number_prop (location req) ''lat'' of
           None \<Rightarrow> Inl (400, ErrorBody ''Invalid location data'')
         | Some lat \<Rightarrow>
             (case number_prop (location req) ''lng'' of
                None \<Rightarrow> Inl (400, ErrorBody ''Invalid location data'')
              | Some lng \<Rightarrow> Inr (elems (contacts req), lat, lng))))"

text \<open>
  The debounce step, from \<^verbatim>\<open>recentAlerts.has(alertKey)\<close> to the end of the cleanup
  loop: whether the key is a duplicate, and the map afterwards. A duplicate returns at
  once; otherwise the key is stored and the cleanup runs.
\<close>

definition dedup :: "clock \<Rightarrow> string \<Rightarrow> alert_map \<Rightarrow> bool \<times> alert_map" where
  "dedup clk key m =
     (if map_has m key then (True, m)
      else
        (let added = map_set m key (t_set clk);
             fiveMinutesAgo = t_sweep clk - 5 * 60 * 1000
         in (False, sweep added fiveMinutesAgo)))"

definition send_alert ::
  "'n host \<Rightarrow> twilio \<Rightarrow> clock \<Rightarrow> 'n alert_request \<Rightarrow> state \<Rightarrow> 'n reply \<times> state" where
  "send_alert H client clk req st =
     (case validate_request H req of
        Inl response \<Rightarrow> (response, st)
      | Inr (cs, lat, lng) \<Rightarrow>
          (case alertKey H (timestamp req) lat lng of
             Inl e \<Rightarrow> ((500, ErrorBody ''Internal server error''), st)
           | Inr key \<Rightarrow>
               (case dedup clk key (recentAlerts st) of
                  (True, m) \<Rightarrow> ((429, ErrorBody ''Duplicate alert detected. Please wait before sending another alert.''), st)
                | (False, m) \<Rightarrow>
                    (let st1 = st\<lparr>recentAlerts := m\<rparr> in
                     (case composeAlert H (userName req) lat lng (timestamp req) of
                        Inl e \<Rightarrow> ((500, ErrorBody ''Internal server error''), st1)
                      | Inr message \<Rightarrow>
                          (case sendAll H client message cs (twilio_calls st1) of
                             (Inl e, calls) \<Rightarrow> ((500, ErrorBody ''Internal server error''), st1\<lparr>twilio_calls := calls\<rparr>)
                           | (Inr results, calls) \<Rightarrow>
                               ((200, AlertBody True (summary results) results (t_reply clk)),
                                st1\<lparr>twilio_calls := calls\<rparr>)))))))"

section \<open>The route POST /api/test-message\<close>

record 'n test_request =
  req_phone :: "'n jv"
  req_name :: "'n jv"

text \<open>
  \<open>formatPhoneNumber(phone)\<close> calls \<^verbatim>\<open>phone.replace\<close>, which only a string has; the
  route's own \<^verbatim>\<open>catch\<close> answers the TypeError of any other truthy value.
\<close>

definition test_message ::
  "'n host \<Rightarrow> twilio \<Rightarrow> 'n test_request \<Rightarrow> state \<Rightarrow> 'n reply \<times> state" where
  "test_message H client req st =
     (if \<not> truthy H (req_phone req) then ((400, ErrorBody ''Phone number required''), st)
      else
        (case req_phone req of
           JStr p \<Rightarrow>
             (let formattedPhone = formatPhoneNumber p in
              (case sendWhatsAppMessage H client (twilio_calls st) formattedPhone (test_text H) of
                 (result, calls) \<Rightarrow>
                   ((200, TestBody (success result)
                            (if success result then ''Test message sent!''
                             else ''Failed to send test message'')
                            result),
                    st\<lparr>twilio_calls := calls\<rparr>)))
         | _ \<Rightarrow> ((500, ErrorBody ''Failed to send test message''), st)))"

section \<open>The wording of the specification for the dispatch\<close>

text \<open>
  The contact shapes of the data model: a bare phone string, or an object whose
  \<open>phone\<close> is a string. \<open>well_shaped\<close> asks in addition that the \<open>phone\<close> of an
  object is not empty.
\<close>

fun string_phone :: "'n jv \<Rightarrow> bool" where
  "string_phone (JStr s) = True"
| "string_phone (JObj kvs) = (case map_of kvs ''phone'' of Some (JStr p) \<Rightarrow> True | _ \<Rightarrow> False)"
| "string_phone v = False"

fun well_shaped :: "'n jv \<Rightarrow> bool" where
  "well_shaped (JStr s) = True"
| "well_shaped (JObj kvs) = (case map_of kvs ''phone'' of Some (JStr p) \<Rightarrow> p \<noteq> [] | _ \<Rightarrow> False)"
| "well_shaped v = False"

text \<open>
  Step 1 of \<open>sendOne\<close>: the phone is \<open>contact.phone\<close>, or the contact itself when it
  is a bare string; the name defaults to "Emergency Contact".
\<close>

fun contact_phone :: "'n jv \<Rightarrow> string" where
  "contact_phone (JStr s) = s"
| "contact_phone (JObj kvs) = (case map_of kvs ''phone'' of Some (JStr p) \<Rightarrow> p | _ \<Rightarrow> [])"
| "contact_phone v = []"

fun contact_name :: "'n host \<Rightarrow> 'n jv \<Rightarrow> 'n jv" where
  "contact_name H (JObj kvs) =
     (case map_of kvs ''name'' of
        None \<Rightarrow> JStr ''Emergency Contact''
      | Some n \<Rightarrow> if truthy H n then n else JStr ''Emergency Contact'')"
| "contact_name H v = JStr ''Emergency Contact''"

text \<open>The one call that a contact with a valid phone causes.\<close>

definition call_for :: "'n host \<Rightarrow> string \<Rightarrow> 'n jv \<Rightarrow> message_create" where
  "call_for H message c =
     \<lparr>msg_body = message, msg_from = FROM_NUMBER H,
      msg_to = ''whatsapp:'' @ formatPhoneNumber (contact_phone c)\<rparr>"

text \<open>
  Steps 2 and 3 of \<open>sendOne\<close>: an invalid phone gives the fixed failure record and no
  call; otherwise the capability is invoked once, and its answer, or the message of
  what it threw, is merged into the record.
\<close>

definition spec_sendOne ::
  "'n host \<Rightarrow> twilio \<Rightarrow> string \<Rightarrow> message_create list \<Rightarrow> 'n jv
     \<Rightarrow> 'n dispatch_result \<times> message_create list" where
  "spec_sendOne H client message calls c =
     (if \<not> validatePhoneNumber (contact_phone c) then
        (\<lparr>success = False, sid = None, status = None,
          error = Some ''Invalid phone number format'',
          phone = contact_phone c, name = contact_name H c\<rparr>, calls)
      else
        (case client calls (call_for H message c) of
           Resolved i s \<Rightarrow>
             (\<lparr>success = True, sid = Some i, status = Some s, error = None,
               phone = contact_phone c, name = contact_name H c\<rparr>,
              calls @ [call_for H message c])
         | Rejected m \<Rightarrow>
             (\<lparr>success = False, sid = None, status = None, error = Some m,
               phone = contact_phone c, name = contact_name H c\<rparr>,
              calls @ [call_for H message c])))"

text \<open>\<open>sendAll\<close>: every contact in input order, each after the calls of the earlier ones.\<close>

fun spec_sendAll ::
  "'n host \<Rightarrow> twilio \<Rightarrow> string \<Rightarrow> 'n jv list \<Rightarrow> message_create list
     \<Rightarrow> 'n dispatch_result list \<times> message_create list" where
  "spec_sendAll H client message [] calls = ([], calls)"
| "spec_sendAll H client message (c # cs) calls =
     (case spec_sendOne H client message calls c of
        (r, calls1) \<Rightarrow>
          (case spec_sendAll H client message cs calls1 of
             (rs, calls2) \<Rightarrow> (r # rs, calls2)))"

text \<open>
  The calls made once the first \<open>i\<close> contacts are done: the earlier calls, then one
  call for each of these contacts whose phone is valid.
\<close>

definition calls_upto ::
  "'n host \<Rightarrow> string \<Rightarrow> message_create list \<Rightarrow> 'n jv list \<Rightarrow> nat \<Rightarrow> message_create list" where
  "calls_upto H message calls cs i =
     calls @ map (call_for H message)
               (filter (\<lambda>c. validatePhoneNumber (contact_phone c)) (take i cs))"

section \<open>A concrete host and capabilities\<close>

text \<open>
  The runtime on integer-valued numbers, where \<^verbatim>\<open>String(k)\<close> is the decimal numeral
  and \<^verbatim>\<open>k.toFixed(3)\<close> appends three zero decimals; a short alert text stands for the
  template.
\<close>

definition int_toString :: "int \<Rightarrow> string" where
  "int_toString k = (if k < 0 then ''-'' @ decimal (nat (- k)) else decimal (nat k))"

definition int_host :: "int host" where
  "int_host =
     \<lparr>num_truthy = (\<lambda>k. k \<noteq> 0),
      num_toString = int_toString,
      num_toFixed3 = (\<lambda>k. int_toString k @ ''.000''),
      alert_text = (\<lambda>who lat lng ts. ''EMERGENCY ALERT for '' @ who),
      test_text = ''Test Message'',
      TWILIO_WHATSAPP_NUMBER = None\<rparr>"

text \<open>A capability that accepts every message, and one that rejects every message.\<close>

definition twilio_up :: twilio where
  "twilio_up calls call = Resolved ''SM1'' ''queued''"

definition twilio_down :: twilio where
  "twilio_down calls call = Rejected ''Authentication Error''"

definition state0 :: state where
  "state0 = \<lparr>recentAlerts = [], twilio_calls = []\<rparr>"

text \<open>An alert for one contact at integer coordinates, and three clocks.\<close>

definition alert1 :: "int alert_request" where
  "alert1 =
     \<lparr>contacts = JArr [JStr ''+14155551234''],
      location = JObj [(''lat'', JNum 37), (''lng'', JNum (- 122))],
      timestamp = JStr ''t1'',
      userName = JStr ''Alice''\<rparr>"

definition clock_at :: "int \<Rightarrow> clock" where
  "clock_at t = \<lparr>t_set = t, t_sweep = t, t_reply = t\<rparr>"

text \<open>A capability that throws for one destination only.\<close>

definition twilio_flaky :: twilio where
  "twilio_flaky calls call =
     (if msg_to call = ''whatsapp:+14155550003'' then Rejected ''unreachable''
      else Resolved ''SM1'' ''queued'')"

text \<open>Three contacts: a valid bare string, an invalid one, and an object with a name.\<close>

definition three_contacts :: "int jv list" where
  "three_contacts =
     [JStr ''+14155550001'', JStr ''abc'',
      JObj [(''phone'', JStr ''+14155550003''), (''name'', JStr ''Bob'')]]"

text \<open>
  Two states whose only entry was stored at time 0: under the key of \<open>alert1\<close>, and
  under another key.
\<close>

definition stale_state :: state where
  "stale_state = \<lparr>recentAlerts = [(''t1-37.000--122.000'', 0)], twilio_calls = []\<rparr>"

definition other_stale_state :: state where
  "other_stale_state = \<lparr>recentAlerts = [(''t0-10.000-20.000'', 0)], twilio_calls = []\<rparr>"

text \<open>Three contacts, the second an object without a \<open>phone\<close>.\<close>

definition nameless_contacts :: "int jv list" where
  "nameless_contacts =
     [JStr ''+14155550001'', JObj [(''name'', JStr ''Bob'')], JStr ''+14155550003'']"

section \<open>Properties of the phone functions\<close>

lemma rx_test_single:
  "rx_test [(cls, lo, hi)] s = (lo \<le> length s \<and> length s \<le> hi \<and> list_all cls s)"
  by (auto simp: list_ex_iff)

lemma e164Regex_iff: "rx_test e164Regex s = e164_like s"
proof (cases s)
  case Nil
  then show ?thesis
    by (simp add: e164Regex_def e164_like_def strip_plus_def list_ex_iff)
next
  case (Cons c cs)
  then show ?thesis
    unfolding e164Regex_def e164_like_def strip_plus_def
    by (auto simp: list_ex_iff is_digit19_def rx_test_single split: list.splits)
qed

lemmas phone_eval =
  validatePhoneNumber_def e164Regex_iff e164_like_def strip_plus_def replace_all_empty_def
  is_space_def is_digit_def is_digit19_def

lemma e164Regex_units_iff: "rx_test e164Regex_units u = e164_like_units u"
proof (cases u)
  case Nil
  then show ?thesis
    by (simp add: e164Regex_units_def e164_like_units_def strip_plus_units_def list_ex_iff)
next
  case (Cons c cs)
  then show ?thesis
    unfolding e164Regex_units_def e164_like_units_def strip_plus_units_def
    by (auto simp: list_ex_iff rx_test_single split: list.splits)
qed

lemma char_eq_units: "(c = d) = ((of_char c :: nat) = of_char d)"
  by simp

lemma plus_units: "(c = CHR ''+'') = ((of_char c :: nat) = 0x2B)"
  by (simp add: char_eq_units [of c])

lemma is_digit_units: "is_digit c = (0x30 \<le> (of_char c :: nat) \<and> (of_char c :: nat) \<le> 0x39)"
proof -
  have "is_digit c = ((of_char c :: nat) \<in> {48, 49, 50, 51, 52, 53, 54, 55, 56, 57})"
    by (simp add: is_digit_def char_eq_units [of c])
  also have "\<dots> = (48 \<le> (of_char c :: nat) \<and> (of_char c :: nat) \<le> 57)"
    by (simp only: insert_iff empty_iff) arith
  finally show ?thesis by simp
qed

lemma is_digit19_units: "is_digit19 c = (0x31 \<le> (of_char c :: nat) \<and> (of_char c :: nat) \<le> 0x39)"
proof -
  have "is_digit19 c = ((of_char c :: nat) \<in> {49, 50, 51, 52, 53, 54, 55, 56, 57})"
    by (simp add: is_digit19_def char_eq_units [of c])
  also have "\<dots> = (49 \<le> (of_char c :: nat) \<and> (of_char c :: nat) \<le> 57)"
    by (simp only: insert_iff empty_iff) arith
  finally show ?thesis by simp
qed

lemma is_space_units: "is_space c = js_space (of_char c)"
proof -
  have small: "(of_char c :: nat) < 256" by simp
  have "is_space c = ((of_char c :: nat) \<in> {9, 10, 11, 12, 13, 32, 160})"
    by (simp add: is_space_def char_eq_units [of c])
  also have "\<dots> = js_space (of_char c)"
    using small by (simp only: js_space_def insert_iff empty_iff list.set) arith
  finally show ?thesis .
qed

lemma strip_space_units:
  "filter (\<lambda>u. \<not> js_space u) (map of_char s) = map of_char (filter (\<lambda>c. \<not> is_space c) s)"
  by (induction s) (simp_all add: is_space_units)

lemma e164_like_units_map: "e164_like_units (map of_char t) = e164_like t"
proof (cases t)
  case Nil
  then show ?thesis
    by (simp add: e164_like_units_def e164_like_def strip_plus_units_def strip_plus_def)
next
  case (Cons c cs)
  show ?thesis
  proof (cases "c = CHR ''+''")
    case True
    with Cons show ?thesis
      by (cases cs)
         (simp_all add: e164_like_units_def e164_like_def strip_plus_units_def strip_plus_def
            is_digit19_units is_digit_units list_all_iff)
  next
    case False
    then have "(of_char c :: nat) \<noteq> 0x2B" by (simp add: plus_units)
    with Cons False show ?thesis
      by (simp add: e164_like_units_def e164_like_def strip_plus_units_def strip_plus_def
            is_digit19_units is_digit_units list_all_iff)
  qed
qed

lemma validatePhoneNumber_units_iff:
  "validatePhoneNumber_units u = e164_like_units (filter (\<lambda>c. \<not> js_space c) u)"
  by (simp add: validatePhoneNumber_units_def e164Regex_units_iff)

lemma validatePhoneNumber_as_units:
  "validatePhoneNumber s = validatePhoneNumber_units (map of_char s)"
  by (simp add: validatePhoneNumber_units_iff strip_space_units e164_like_units_map
        validatePhoneNumber_def e164Regex_iff replace_all_empty_def)


lemmas units_eval =
  validatePhoneNumber_units_iff e164_like_units_def strip_plus_units_def js_space_def

text \<open>
  C6. For every phone string, \<open>validate\<close> is true if and only if the string with all
  whitespace removed is an optional leading plus sign, a first digit 1 to 9, and then
  1 to 14 further digits. The whitespace that is removed is written out: on code units
  below 256 it is TAB, LF, VT, FF, CR, SPACE and the no-break space, and on full
  UTF-16 code units the Unicode spaces and separators as well; the two models agree.
  \<open>validate\<close> is true for "+14155551234" and "14155551234", and false for "abc",
  "+0123", the empty string and "123456789012345678". It is true for a number with
  spaces, tabs, line breaks or Unicode spaces between the digits, and false for one
  with hyphens or with the zero width space U+200B, which is not whitespace.
\<close>

theorem validatePhoneNumber_e164:
  "validatePhoneNumber s = e164_like (replace_all_empty is_space s)
   \<and> validatePhoneNumber s =
       e164_like (filter (\<lambda>c. c \<notin> set [CHR 0x09, CHR 0x0A, CHR 0x0B, CHR 0x0C, CHR 0x0D,
                                         CHR '' '', CHR 0xA0]) s)
   \<and> validatePhoneNumber s = validatePhoneNumber_units (map of_char s)
   \<and> validatePhoneNumber_units u =
       e164_like_units
         (filter (\<lambda>c. c \<notin> set [0x09, 0x0A, 0x0B, 0x0C, 0x0D, 0x20, 0xA0, 0x1680, 0x2028,
                                   0x2029, 0x202F, 0x205F, 0x3000, 0xFEFF]
                      \<and> \<not> (0x2000 \<le> c \<and> c \<le> 0x200A)) u)
   \<and> validatePhoneNumber ''+14155551234''
   \<and> validatePhoneNumber ''14155551234''
   \<and> \<not> validatePhoneNumber ''abc''
   \<and> \<not> validatePhoneNumber ''+0123''
   \<and> \<not> validatePhoneNumber ''''
   \<and> \<not> validatePhoneNumber ''123456789012345678''
   \<and> validatePhoneNumber '' +1 415 555 1234 ''
   \<and> validatePhoneNumber
        [CHR ''+'', CHR ''1'', CHR 0x09, CHR ''4'', CHR 0x0A, CHR ''1'', CHR 0x0B, CHR ''5'',
         CHR 0x0C, CHR ''5'', CHR 0x0D, CHR ''5'', CHR 0xA0, CHR ''5'', CHR '' '']
   \<and> \<not> validatePhoneNumber ''+1-415-555-1234''
   \<and> validatePhoneNumber_units
        [0x2B, 0x31, 0x1680, 0x34, 0x2000, 0x31, 0x200A, 0x35, 0x2028, 0x35, 0x2029, 0x35,
         0x202F, 0x31, 0x205F, 0x32, 0x3000, 0x33, 0xFEFF, 0x34]
   \<and> \<not> validatePhoneNumber_units [0x2B, 0x31, 0x200B, 0x34, 0x31, 0x35]"
proof -
  have general: "validatePhoneNumber s = e164_like (replace_all_empty is_space s)"
    by (simp add: validatePhoneNumber_def e164Regex_iff)
  have written: "validatePhoneNumber s =
       e164_like (filter (\<lambda>c. c \<notin> set [CHR 0x09, CHR 0x0A, CHR 0x0B, CHR 0x0C, CHR 0x0D,
                                         CHR '' '', CHR 0xA0]) s)"
    by (simp add: validatePhoneNumber_def e164Regex_iff replace_all_empty_def is_space_def)
  have bridge: "validatePhoneNumber s = validatePhoneNumber_units (map of_char s)"
    by (rule validatePhoneNumber_as_units)
  have units: "validatePhoneNumber_units u =
       e164_like_units
         (filter (\<lambda>c. c \<notin> set [0x09, 0x0A, 0x0B, 0x0C, 0x0D, 0x20, 0xA0, 0x1680, 0x2028,
                                   0x2029, 0x202F, 0x205F, 0x3000, 0xFEFF]
                      \<and> \<not> (0x2000 \<le> c \<and> c \<le> 0x200A)) u)"
    by (simp add: validatePhoneNumber_units_iff js_space_def)
  have t1: "validatePhoneNumber ''+14155551234''" by (simp add: phone_eval)
  have t2: "validatePhoneNumber ''14155551234''" by (simp add: phone_eval)
  have f1: "\<not> validatePhoneNumber ''abc''" by (simp add: phone_eval)
  have f2: "\<not> validatePhoneNumber ''+0123''" by (simp add: phone_eval)
  have f3: "\<not> validatePhoneNumber ''''" by (simp add: phone_eval)
  have f4: "\<not> validatePhoneNumber ''123456789012345678''" by (simp add: phone_eval)
  have w1: "validatePhoneNumber '' +1 415 555 1234 ''" by (simp add: phone_eval)
  have w2: "validatePhoneNumber
        [CHR ''+'', CHR ''1'', CHR 0x09, CHR ''4'', CHR 0x0A, CHR ''1'', CHR 0x0B, CHR ''5'',
         CHR 0x0C, CHR ''5'', CHR 0x0D, CHR ''5'', CHR 0xA0, CHR ''5'', CHR '' '']"
    by (simp add: phone_eval)
  have w3: "\<not> validatePhoneNumber ''+1-415-555-1234''" by (simp add: phone_eval)
  have w4: "validatePhoneNumber_units
        [0x2B, 0x31, 0x1680, 0x34, 0x2000, 0x31, 0x200A, 0x35, 0x2028, 0x35, 0x2029, 0x35,
         0x202F, 0x31, 0x205F, 0x32, 0x3000, 0x33, 0xFEFF, 0x34]"
    by (simp add: units_eval)
  have w5: "\<not> validatePhoneNumber_units [0x2B, 0x31, 0x200B, 0x34, 0x31, 0x35]"
    by (simp add: units_eval)
  from general written bridge units t1 t2 f1 f2 f3 f4 w1 w2 w3 w4 w5 show ?thesis
    by blast
qed

theorem validatePhoneNumber_e164_witness:
  "validatePhoneNumber ''1 415 555 1234''
   \<and> validatePhoneNumber_units [0x20, 0x31, 0x2003, 0x34, 0x31, 0x35, 0xA0, 0x35]"
proof -
  note inst = validatePhoneNumber_e164
                [of "''1 415 555 1234''" "[0x20, 0x31, 0x2003, 0x34, 0x31, 0x35, 0xA0, 0x35]"]
  from inst have chars: "validatePhoneNumber ''1 415 555 1234'' =
       e164_like (filter (\<lambda>c. c \<notin> set [CHR 0x09, CHR 0x0A, CHR 0x0B, CHR 0x0C, CHR 0x0D,
                                         CHR '' '', CHR 0xA0]) ''1 415 555 1234'')"
    by blast
  from inst have units: "validatePhoneNumber_units [0x20, 0x31, 0x2003, 0x34, 0x31, 0x35, 0xA0, 0x35] =
       e164_like_units
         (filter (\<lambda>c. c \<notin> set [0x09, 0x0A, 0x0B, 0x0C, 0x0D, 0x20, 0xA0, 0x1680, 0x2028,
                                   0x2029, 0x202F, 0x205F, 0x3000, 0xFEFF]
                      \<and> \<not> (0x2000 \<le> c \<and> c \<le> 0x200A))
            [0x20, 0x31, 0x2003, 0x34, 0x31, 0x35, 0xA0, 0x35])"
    by blast
  have c: "validatePhoneNumber ''1 415 555 1234''"
    unfolding chars by (simp add: e164_like_def strip_plus_def is_digit_def is_digit19_def)
  have u: "validatePhoneNumber_units [0x20, 0x31, 0x2003, 0x34, 0x31, 0x35, 0xA0, 0x35]"
    unfolding units by (simp add: e164_like_units_def strip_plus_units_def)
  from c u show ?thesis by simp
qed

lemma digits_no_plus: "\<not> startsWith (filter is_digit s) ''+''"
proof (cases "filter is_digit s")
  case Nil
  then show ?thesis by (simp add: startsWith_def)
next
  case (Cons d ds)
  then have "d \<in> set (filter is_digit s)" by simp
  then have "is_digit d" by simp
  then have "d \<noteq> CHR ''+''" by (auto simp: is_digit_def)
  with Cons show ?thesis by (simp add: startsWith_def)
qed

lemma formatPhoneNumber_eq:
  "formatPhoneNumber s =
     ''+'' @ (if length (filter is_digit s) = 10 then ''1'' @ filter is_digit s
              else filter is_digit s)"
  using digits_no_plus [of s]
  by (simp add: formatPhoneNumber_def replace_all_empty_def is_non_digit_def Let_def)

text \<open>
  C7. For every phone string, \<open>normalize\<close> strips every character that is not a
  digit, prepends 1 when exactly ten digits remain, and prepends a plus sign; so
  "(415) 555-1234" becomes "+14155551234" and "+44 20 7946 0958" becomes
  "+442079460958".
\<close>

theorem formatPhoneNumber_strips:
  "formatPhoneNumber s =
     ''+'' @ (if length (filter is_digit s) = 10 then ''1'' @ filter is_digit s
              else filter is_digit s)
   \<and> formatPhoneNumber ''(415) 555-1234'' = ''+14155551234''
   \<and> formatPhoneNumber ''+44 20 7946 0958'' = ''+442079460958''"
proof -
  have e1: "formatPhoneNumber ''(415) 555-1234'' = ''+14155551234''"
    by (simp add: formatPhoneNumber_eq is_digit_def)
  have e2: "formatPhoneNumber ''+44 20 7946 0958'' = ''+442079460958''"
    by (simp add: formatPhoneNumber_eq is_digit_def)
  from formatPhoneNumber_eq [of s] e1 e2 show ?thesis by blast
qed

lemma filter_digit_formatted:
  "filter is_digit (formatPhoneNumber s) =
     (if length (filter is_digit s) = 10 then ''1'' @ filter is_digit s else filter is_digit s)"
  by (simp add: formatPhoneNumber_eq is_digit_def)

text \<open>
  C8. \<open>normalize\<close> is idempotent: normalising its own output gives the same string.
\<close>

theorem formatPhoneNumber_idempotent:
  "formatPhoneNumber (formatPhoneNumber s) = formatPhoneNumber s"
proof -
  let ?d = "filter is_digit s"
  let ?d' = "filter is_digit (formatPhoneNumber s)"
  have outer: "formatPhoneNumber (formatPhoneNumber s) =
                 ''+'' @ (if length ?d' = 10 then ''1'' @ ?d' else ?d')"
    by (rule formatPhoneNumber_eq)
  have inner: "formatPhoneNumber s = ''+'' @ (if length ?d = 10 then ''1'' @ ?d else ?d)"
    by (rule formatPhoneNumber_eq)
  show ?thesis
  proof (cases "length ?d = 10")
    case True
    then have "?d' = ''1'' @ ?d" by (simp add: filter_digit_formatted)
    with True outer inner show ?thesis by simp
  next
    case False
    then have "?d' = ?d" by (simp add: filter_digit_formatted)
    with False outer inner show ?thesis by simp
  qed
qed


section \<open>Validation and the dedup map\<close>

lemma validate_request_no_contacts:
  "contacts req = JUndefined \<or> \<not> isArray (contacts req) \<or> contacts req = JArr []
   \<Longrightarrow> validate_request H req = Inl (400, ErrorBody ''No contacts provided'')"
  by (auto simp: validate_request_def)

lemma truthy_array: "isArray v \<Longrightarrow> truthy H v"
  by (cases v) simp_all

lemma validate_request_bad_location:
  assumes "isArray (contacts req)" "elems (contacts req) \<noteq> []"
    and "location req = JUndefined \<or> number_prop (location req) ''lat'' = None
           \<or> number_prop (location req) ''lng'' = None"
  shows "validate_request H req = Inl (400, ErrorBody ''Invalid location data'')"
  using assms truthy_array [of "contacts req" H]
  by (auto simp: validate_request_def split: option.splits)

text \<open>
  C4. An alert request whose \<open>contacts\<close> field is missing, is not an array or is an
  empty array is answered 400 "No contacts provided"; one whose \<open>location\<close> is
  missing, or whose \<open>lat\<close> or \<open>lng\<close> is not a number, is answered 400 "Invalid
  location data". Either way nothing is dispatched and no fingerprint is recorded: the
  dedup map and the record of calls are unchanged.
\<close>

theorem send_alert_validation:
  "(contacts req = JUndefined \<or> \<not> isArray (contacts req) \<or> contacts req = JArr []
      \<longrightarrow> send_alert H client clk req st = ((400, ErrorBody ''No contacts provided''), st))
   \<and> (isArray (contacts req) \<and> elems (contacts req) \<noteq> []
        \<and> (location req = JUndefined \<or> number_prop (location req) ''lat'' = None
             \<or> number_prop (location req) ''lng'' = None)
      \<longrightarrow> send_alert H client clk req st = ((400, ErrorBody ''Invalid location data''), st))"
  by (simp add: send_alert_def validate_request_no_contacts validate_request_bad_location)

theorem send_alert_validation_witness:
  "send_alert int_host twilio_up (clock_at 1000) (alert1\<lparr>contacts := JUndefined\<rparr>) state0
     = ((400, ErrorBody ''No contacts provided''), state0)
   \<and> send_alert int_host twilio_up (clock_at 1000)
        (alert1\<lparr>location := JObj [(''lat'', JNum 37)]\<rparr>) state0
     = ((400, ErrorBody ''Invalid location data''), state0)"
  using send_alert_validation [of "alert1\<lparr>contacts := JUndefined\<rparr>" int_host twilio_up "clock_at 1000" state0]
    send_alert_validation [of "alert1\<lparr>location := JObj [(''lat'', JNum 37)]\<rparr>" int_host twilio_up "clock_at 1000" state0]
  by (simp add: alert1_def number_prop_def)

lemma sweep_filter: "sweep m cutoff = filter (\<lambda>(k, t). \<not> t < cutoff) m"
  by (induction m cutoff rule: sweep.induct) auto

lemma sweep_fresh: "(k, t) \<in> set (sweep m cutoff) \<Longrightarrow> cutoff \<le> t"
  by (auto simp: sweep_filter)

lemma dedup_duplicate: "map_has m key \<Longrightarrow> dedup clk key m = (True, m)"
  by (simp add: dedup_def)

lemma dedup_fresh:
  "\<not> map_has m key \<Longrightarrow>
     dedup clk key m = (False, sweep (m @ [(key, t_set clk)]) (t_sweep clk - 300000))"
  by (simp add: dedup_def map_set_def)

lemma send_alert_duplicate:
  assumes "validate_request H req = Inr (cs, lat, lng)"
    and "alertKey H (timestamp req) lat lng = Inr key"
    and "map_has (recentAlerts st) key"
  shows "send_alert H client clk req st =
           ((429, ErrorBody ''Duplicate alert detected. Please wait before sending another alert.''), st)"
  using assms by (simp add: send_alert_def dedup_duplicate)

lemma send_alert_recorded:
  assumes "validate_request H req = Inr (cs, lat, lng)"
    and "alertKey H (timestamp req) lat lng = Inr key"
    and "\<not> map_has (recentAlerts st) key"
  shows "recentAlerts (snd (send_alert H client clk req st)) =
           sweep (recentAlerts st @ [(key, t_set clk)]) (t_sweep clk - 300000)
         \<and> fst (fst (send_alert H client clk req st)) \<in> {200, 500}"
  using assms
  by (simp add: send_alert_def dedup_fresh Let_def split: sum.splits prod.splits)


lemma alert1_validated:
  "validate_request int_host alert1 = Inr ([JStr ''+14155551234''], 37, - 122)"
  by (simp add: validate_request_def alert1_def number_prop_def)

lemma decimal_37: "decimal 37 = ''37''"
  by (simp add: decimal.simps)

lemma decimal_122: "decimal 122 = ''122''"
  by (simp add: decimal.simps)

lemma alert1_key:
  "alertKey int_host (timestamp alert1) 37 (- 122) = Inr ''t1-37.000--122.000''"
  by (simp add: alertKey_def alert1_def int_host_def int_toString_def decimal_37 decimal_122)

text \<open>
  C3, as the code has it. The cleanup runs right after a fingerprint is recorded, that
  is on the path that is not a duplicate; immediately after the dedup step of such a
  request the map holds no entry whose insertion time is older than the cleanup's
  reading of the clock minus 5 minutes.
\<close>

theorem sweep_after_record:
  assumes "validate_request H req = Inr (cs, lat, lng)"
    and "alertKey H (timestamp req) lat lng = Inr key"
    and "\<not> map_has (recentAlerts st) key"
  shows "dedup clk key (recentAlerts st) =
           (False, sweep (recentAlerts st @ [(key, t_set clk)]) (t_sweep clk - 5 * 60 * 1000))
         \<and> recentAlerts (snd (send_alert H client clk req st)) = snd (dedup clk key (recentAlerts st))
         \<and> (\<forall>(k, t) \<in> set (recentAlerts (snd (send_alert H client clk req st))).
               t_sweep clk - 5 * 60 * 1000 \<le> t)"
proof -
  have d: "dedup clk key (recentAlerts st) =
             (False, sweep (recentAlerts st @ [(key, t_set clk)]) (t_sweep clk - 5 * 60 * 1000))"
    using assms(3) by (simp add: dedup_fresh)
  have r: "recentAlerts (snd (send_alert H client clk req st)) =
             sweep (recentAlerts st @ [(key, t_set clk)]) (t_sweep clk - 5 * 60 * 1000)"
    using send_alert_recorded [OF assms, of client clk] by simp
  have f: "\<forall>(k, t) \<in> set (recentAlerts (snd (send_alert H client clk req st))).
             t_sweep clk - 5 * 60 * 1000 \<le> t"
    unfolding r using sweep_fresh by fastforce
  from d r f show ?thesis by simp
qed

theorem sweep_after_record_witness:
  "recentAlerts (snd (send_alert int_host twilio_up (clock_at 360000) alert1 other_stale_state))
     = [(''t1-37.000--122.000'', 360000)]"
proof -
  have h3: "\<not> map_has (recentAlerts other_stale_state) ''t1-37.000--122.000''"
    by (simp add: other_stale_state_def map_has_def)
  from sweep_after_record [OF alert1_validated alert1_key h3, of "clock_at 360000" twilio_up]
  show ?thesis
    by (simp add: other_stale_state_def clock_at_def)
qed

text \<open>
  On the duplicate path the handler returns before the cleanup: an entry stored six
  minutes earlier is still in the map after the request.
\<close>

theorem duplicate_path_keeps_stale_entry:
  "send_alert int_host twilio_up (clock_at 360000) alert1 stale_state
     = ((429, ErrorBody ''Duplicate alert detected. Please wait before sending another alert.''),
        stale_state)
   \<and> recentAlerts stale_state = [(''t1-37.000--122.000'', 0)]
   \<and> (0::int) < t_sweep (clock_at 360000) - 5 * 60 * 1000"
proof -
  have "map_has (recentAlerts stale_state) ''t1-37.000--122.000''"
    by (simp add: stale_state_def map_has_def)
  from send_alert_duplicate [OF alert1_validated alert1_key this]
  show ?thesis by (simp add: stale_state_def clock_at_def)
qed

lemma map_has_iff: "map_has m key = (key \<in> fst ` set m)"
  by (simp add: map_has_def map_of_eq_None_iff)

lemma recorded_key_survives:
  assumes "cutoff \<le> t"
  shows "map_has (sweep (m @ [(key, t)]) cutoff) key"
  using assms by (force simp: map_has_iff sweep_filter)

text \<open>
  C1 on the code. Of three requests with the same fingerprint, the first is recorded
  and goes on to the dispatch, and the second is answered 429. The third, arriving six
  minutes after the insertion, is answered 429 as well: \<^verbatim>\<open>recentAlerts.has\<close> is
  consulted before any cleanup, and the duplicate path returns without one, so the
  old entry is still there.
\<close>

theorem stale_fingerprint_still_rejected:
  assumes "validate_request H req1 = Inr (cs1, lat1, lng1)"
    and "alertKey H (timestamp req1) lat1 lng1 = Inr key"
    and "validate_request H req2 = Inr (cs2, lat2, lng2)"
    and "alertKey H (timestamp req2) lat2 lng2 = Inr key"
    and "validate_request H req3 = Inr (cs3, lat3, lng3)"
    and "alertKey H (timestamp req3) lat3 lng3 = Inr key"
    and "\<not> map_has (recentAlerts st) key"
    and "t_sweep clk1 - 5 * 60 * 1000 \<le> t_set clk1"
    and "t_set clk1 + 6 * 60 * 1000 \<le> t_set clk3"
  shows "fst (fst (send_alert H client clk1 req1 st)) \<in> {200, 500}
         \<and> fst (send_alert H client clk2 req2 (snd (send_alert H client clk1 req1 st)))
             = (429, ErrorBody ''Duplicate alert detected. Please wait before sending another alert.'')
         \<and> fst (send_alert H client clk3 req3
                  (snd (send_alert H client clk2 req2 (snd (send_alert H client clk1 req1 st)))))
             = (429, ErrorBody ''Duplicate alert detected. Please wait before sending another alert.'')"
proof -
  let ?s1 = "snd (send_alert H client clk1 req1 st)"
  let ?s2 = "snd (send_alert H client clk2 req2 ?s1)"
  from send_alert_recorded [OF assms(1,2,7), of client clk1]
  have first: "fst (fst (send_alert H client clk1 req1 st)) \<in> {200, 500}"
    and m1: "recentAlerts ?s1 = sweep (recentAlerts st @ [(key, t_set clk1)]) (t_sweep clk1 - 300000)"
    by simp_all
  have has1: "map_has (recentAlerts ?s1) key"
    unfolding m1 using assms(8) by (intro recorded_key_survives) simp
  have second: "send_alert H client clk2 req2 ?s1 =
      ((429, ErrorBody ''Duplicate alert detected. Please wait before sending another alert.''), ?s1)"
    by (rule send_alert_duplicate [OF assms(3,4) has1])
  then have s2: "?s2 = ?s1" by simp
  have third: "send_alert H client clk3 req3 ?s2 =
      ((429, ErrorBody ''Duplicate alert detected. Please wait before sending another alert.''), ?s2)"
    unfolding s2 by (rule send_alert_duplicate [OF assms(5,6) has1])
  from first second third show ?thesis by simp
qed

theorem stale_fingerprint_still_rejected_witness:
  "fst (fst (send_alert int_host twilio_up (clock_at 1000) alert1 state0)) \<in> {200, 500}
   \<and> fst (send_alert int_host twilio_up (clock_at 2000) alert1
            (snd (send_alert int_host twilio_up (clock_at 1000) alert1 state0)))
       = (429, ErrorBody ''Duplicate alert detected. Please wait before sending another alert.'')
   \<and> fst (send_alert int_host twilio_up (clock_at 361000) alert1
            (snd (send_alert int_host twilio_up (clock_at 2000) alert1
                   (snd (send_alert int_host twilio_up (clock_at 1000) alert1 state0)))))
       = (429, ErrorBody ''Duplicate alert detected. Please wait before sending another alert.'')"
proof -
  have fresh: "\<not> map_has (recentAlerts state0) ''t1-37.000--122.000''"
    by (simp add: state0_def map_has_def)
  have survive: "t_sweep (clock_at 1000) - 5 * 60 * 1000 \<le> t_set (clock_at 1000)"
    by (simp add: clock_at_def)
  have later: "t_set (clock_at 1000) + 6 * 60 * 1000 \<le> t_set (clock_at 361000)"
    by (simp add: clock_at_def)
  show ?thesis
    by (rule stale_fingerprint_still_rejected
          [OF alert1_validated alert1_key alert1_validated alert1_key alert1_validated alert1_key
              fresh survive later])
qed

section \<open>The dispatch loop\<close>

lemma resolve_well_shaped:
  "well_shaped c \<Longrightarrow> resolve_contact H c = Inr (JStr (contact_phone c), contact_name H c)"
  by (cases c) (auto simp: resolve_contact_def js_or_def split: option.splits jv.splits)

lemma spec_sendOne_valid:
  "validatePhoneNumber (contact_phone c) \<Longrightarrow>
   spec_sendOne H client message calls c =
     (\<lparr>success = success (fst (sendWhatsAppMessage H client calls (contact_phone c) message)),
       sid = sid (fst (sendWhatsAppMessage H client calls (contact_phone c) message)),
       status = status (fst (sendWhatsAppMessage H client calls (contact_phone c) message)),
       error = error (fst (sendWhatsAppMessage H client calls (contact_phone c) message)),
       phone = contact_phone c, name = contact_name H c\<rparr>,
      snd (sendWhatsAppMessage H client calls (contact_phone c) message))"
  by (simp add: sendWhatsAppMessage_def spec_sendOne_def call_for_def Let_def
           split: twilio_outcome.splits)

lemma send_loop_step:
  assumes "well_shaped c"
  shows "send_loop H client message (c # rest) results calls =
           send_loop H client message rest
             (results @ [fst (spec_sendOne H client message calls c)])
             (snd (spec_sendOne H client message calls c))"
proof (cases "validatePhoneNumber (contact_phone c)")
  case False
  then show ?thesis
    by (simp add: resolve_well_shaped [OF assms] spec_sendOne_def)
next
  case True
  then show ?thesis
    by (simp add: resolve_well_shaped [OF assms] spec_sendOne_valid case_prod_beta)
qed

lemma spec_sendAll_Cons:
  "spec_sendAll H client message (c # cs) calls =
     (fst (spec_sendOne H client message calls c)
        # fst (spec_sendAll H client message cs (snd (spec_sendOne H client message calls c))),
      snd (spec_sendAll H client message cs (snd (spec_sendOne H client message calls c))))"
  by (simp add: case_prod_beta)

lemma send_loop_spec:
  "list_all well_shaped cs \<Longrightarrow>
   send_loop H client message cs results calls =
     (Inr (results @ fst (spec_sendAll H client message cs calls)),
      snd (spec_sendAll H client message cs calls))"
proof (induction cs arbitrary: results calls)
  case Nil
  then show ?case by simp
next
  case (Cons c cs)
  then have c: "well_shaped c" and cs: "list_all well_shaped cs" by simp_all
  show ?case
    by (simp only: send_loop_step [OF c] Cons.IH [OF cs] spec_sendAll_Cons fst_conv snd_conv
          append_assoc append_Cons append_Nil)
qed

lemma spec_sendOne_calls:
  "snd (spec_sendOne H client message calls c) =
     calls @ (if validatePhoneNumber (contact_phone c) then [call_for H message c] else [])"
  by (simp add: spec_sendOne_def split: twilio_outcome.splits)

lemma spec_sendAll_length: "length (fst (spec_sendAll H client message cs calls)) = length cs"
  by (induction cs arbitrary: calls) (simp_all add: spec_sendAll_Cons del: spec_sendAll.simps(2))

lemma spec_sendAll_calls:
  "snd (spec_sendAll H client message cs calls) = calls_upto H message calls cs (length cs)"
proof (induction cs arbitrary: calls)
  case Nil
  then show ?case by (simp add: calls_upto_def)
next
  case (Cons c cs)
  have "snd (spec_sendAll H client message (c # cs) calls) =
          snd (spec_sendAll H client message cs (snd (spec_sendOne H client message calls c)))"
    by (simp add: spec_sendAll_Cons del: spec_sendAll.simps(2))
  also have "\<dots> = calls_upto H message (snd (spec_sendOne H client message calls c)) cs (length cs)"
    by (rule Cons.IH)
  also have "\<dots> = calls_upto H message calls (c # cs) (length (c # cs))"
    by (simp add: calls_upto_def spec_sendOne_calls)
  finally show ?case .
qed

lemma spec_sendAll_nth:
  "i < length cs \<Longrightarrow>
   fst (spec_sendAll H client message cs calls) ! i =
     fst (spec_sendOne H client message (calls_upto H message calls cs i) (cs ! i))"
proof (induction cs arbitrary: calls i)
  case Nil
  then show ?case by simp
next
  case (Cons c cs)
  show ?case
  proof (cases i)
    case 0
    then show ?thesis by (simp add: calls_upto_def spec_sendAll_Cons del: spec_sendAll.simps(2))
  next
    case (Suc j)
    with Cons.prems have j: "j < length cs" by simp
    have "fst (spec_sendAll H client message (c # cs) calls) ! i =
            fst (spec_sendAll H client message cs (snd (spec_sendOne H client message calls c))) ! j"
      using Suc by (simp add: spec_sendAll_Cons del: spec_sendAll.simps(2))
    also have "\<dots> = fst (spec_sendOne H client message
                          (calls_upto H message (snd (spec_sendOne H client message calls c)) cs j) (cs ! j))"
      by (rule Cons.IH [OF j])
    also have "calls_upto H message (snd (spec_sendOne H client message calls c)) cs j =
                 calls_upto H message calls (c # cs) i"
      using Suc by (simp add: calls_upto_def spec_sendOne_calls)
    finally show ?thesis using Suc by simp
  qed
qed

text \<open>
  C2, for contacts that are bare strings or objects with a non-empty string \<open>phone\<close>.
  The loop never raises and returns exactly one result per contact, in input order.
  Each result is the one of \<open>sendOne\<close>: the fixed record "Invalid phone number format"
  and no call for a phone that fails \<open>validate\<close>; otherwise one call, and a record with
  \<open>success = False\<close> and the error message when the capability throws. The calls made
  are exactly those for the contacts with a valid phone, so the loop goes on after
  either kind of failure.
\<close>

theorem sendAll_isolation:
  assumes "list_all well_shaped cs"
  shows "\<exists>results.
           sendAll H client message cs calls = (Inr results, calls_upto H message calls cs (length cs))
           \<and> length results = length cs
           \<and> (\<forall>i<length cs.
                 results ! i =
                   fst (spec_sendOne H client message (calls_upto H message calls cs i) (cs ! i)))"
proof -
  let ?rs = "fst (spec_sendAll H client message cs calls)"
  have "sendAll H client message cs calls = (Inr ?rs, calls_upto H message calls cs (length cs))"
    using send_loop_spec [OF assms, of H client message "[]" calls]
    by (simp add: sendAll_def spec_sendAll_calls)
  moreover have "length ?rs = length cs" by (rule spec_sendAll_length)
  moreover have "\<forall>i<length cs. ?rs ! i =
      fst (spec_sendOne H client message (calls_upto H message calls cs i) (cs ! i))"
    by (simp add: spec_sendAll_nth)
  ultimately show ?thesis by blast
qed


lemma valid_0001: "validatePhoneNumber ''+14155550001''"
  by (simp add: phone_eval)
lemma valid_0003: "validatePhoneNumber ''+14155550003''"
  by (simp add: phone_eval)
lemma invalid_abc: "\<not> validatePhoneNumber ''abc''"
  by (simp add: phone_eval)
lemma format_0001: "formatPhoneNumber ''+14155550001'' = ''+14155550001''"
  by (simp add: formatPhoneNumber_eq is_digit_def)
lemma format_0003: "formatPhoneNumber ''+14155550003'' = ''+14155550003''"
  by (simp add: formatPhoneNumber_eq is_digit_def)
lemma format_abc: "formatPhoneNumber ''abc'' = ''+''"
  by (simp add: formatPhoneNumber_eq is_digit_def)

lemmas contact_eval =
  valid_0001 valid_0003 invalid_abc format_0001 format_0003 format_abc

theorem sendAll_isolation_witness:
  "list_all well_shaped three_contacts
   \<and> (\<exists>results.
         sendAll int_host twilio_flaky ''help'' three_contacts [] =
           (Inr results,
            [\<lparr>msg_body = ''help'', msg_from = ''whatsapp:+14155238886'',
              msg_to = ''whatsapp:+14155550001''\<rparr>,
             \<lparr>msg_body = ''help'', msg_from = ''whatsapp:+14155238886'',
              msg_to = ''whatsapp:+14155550003''\<rparr>])
         \<and> length results = 3
         \<and> success (results ! 0)
         \<and> results ! 1 =
             \<lparr>success = False, sid = None, status = None,
              error = Some ''Invalid phone number format'',
              phone = ''abc'', name = JStr ''Emergency Contact''\<rparr>
         \<and> results ! 2 =
             \<lparr>success = False, sid = None, status = None, error = Some ''unreachable'',
              phone = ''+14155550003'', name = JStr ''Bob''\<rparr>)"
proof -
  have shaped: "list_all well_shaped three_contacts"
    by (simp add: three_contacts_def)
  from sendAll_isolation [OF shaped, of int_host twilio_flaky "''help''" "[]"]
  obtain results where
    run: "sendAll int_host twilio_flaky ''help'' three_contacts [] =
            (Inr results, calls_upto int_host ''help'' [] three_contacts (length three_contacts))"
    and len: "length results = length three_contacts"
    and nth: "\<forall>i<length three_contacts. results ! i =
                fst (spec_sendOne int_host twilio_flaky ''help''
                       (calls_upto int_host ''help'' [] three_contacts i) (three_contacts ! i))"
    by blast
  have l3: "length three_contacts = 3" by (simp add: three_contacts_def)
  have calls: "calls_upto int_host ''help'' [] three_contacts (length three_contacts) =
      [\<lparr>msg_body = ''help'', msg_from = ''whatsapp:+14155238886'', msg_to = ''whatsapp:+14155550001''\<rparr>,
       \<lparr>msg_body = ''help'', msg_from = ''whatsapp:+14155238886'', msg_to = ''whatsapp:+14155550003''\<rparr>]"
    by (simp add: calls_upto_def three_contacts_def call_for_def FROM_NUMBER_def int_host_def
          contact_eval)
  from nth l3 have r0: "results ! 0 =
      fst (spec_sendOne int_host twilio_flaky ''help''
             (calls_upto int_host ''help'' [] three_contacts 0) (three_contacts ! 0))"
    by simp
  from nth l3 have r1: "results ! 1 =
      fst (spec_sendOne int_host twilio_flaky ''help''
             (calls_upto int_host ''help'' [] three_contacts 1) (three_contacts ! 1))"
    by simp
  from nth l3 have r2: "results ! 2 =
      fst (spec_sendOne int_host twilio_flaky ''help''
             (calls_upto int_host ''help'' [] three_contacts 2) (three_contacts ! 2))"
    by simp
  have s0: "success (results ! 0)"
    unfolding r0
    by (simp add: three_contacts_def spec_sendOne_def call_for_def twilio_flaky_def contact_eval)
  have s1: "results ! 1 =
      \<lparr>success = False, sid = None, status = None, error = Some ''Invalid phone number format'',
       phone = ''abc'', name = JStr ''Emergency Contact''\<rparr>"
    unfolding r1
    by (simp add: three_contacts_def spec_sendOne_def contact_eval)
  have s2: "results ! 2 =
      \<lparr>success = False, sid = None, status = None, error = Some ''unreachable'',
       phone = ''+14155550003'', name = JStr ''Bob''\<rparr>"
    unfolding r2
    by (simp add: three_contacts_def spec_sendOne_def call_for_def twilio_flaky_def contact_eval
          int_host_def)
  from shaped run len l3 calls s0 s1 s2 show ?thesis by auto
qed

text \<open>
  A \<open>null\<close> among the contacts: the loop raises at it, after the call for the first
  contact and without reaching the third.
\<close>

theorem sendAll_null_contact_raises:
  "sendAll int_host twilio_up ''help'' [JStr ''+14155550001'', JNull, JStr ''+14155550003''] []
     = (Inl TypeError,
        [\<lparr>msg_body = ''help'', msg_from = ''whatsapp:+14155238886'',
          msg_to = ''whatsapp:+14155550001''\<rparr>])"
  by (simp add: sendAll_def resolve_contact_def js_or_def sendWhatsAppMessage_def FROM_NUMBER_def
        int_host_def twilio_up_def contact_eval)

text \<open>An object whose \<open>phone\<close> is the empty string: \<^verbatim>\<open>contact.phone || contact\<close> yields the object itself, and the loop raises.\<close>

lemma sendAll_empty_phone_raises:
  "sendAll int_host twilio_up ''help'' [JObj [(''phone'', JStr '''')]] [] = (Inl TypeError, [])"
  by (simp add: sendAll_def resolve_contact_def js_or_def)


section \<open>Malformed contacts\<close>

lemma js_error_cases: "(e :: js_error) = TypeError"
  by (cases e) simp

lemma not_well_shaped_throws:
  assumes "\<not> well_shaped c"
  shows "send_loop H client message (c # rest) results calls = (Inl TypeError, calls)"
proof (cases "resolve_contact H c")
  case (Inl e)
  then show ?thesis by (simp add: js_error_cases [of e])
next
  case (Inr pn)
  obtain v nm where pn: "pn = (v, nm)" by (cases pn)
  have "\<not> (\<exists>p. v = JStr p)"
    using assms Inr pn
    by (cases c) (auto simp: resolve_contact_def js_or_def split: option.splits jv.splits if_splits)
  then show ?thesis
    using Inr pn by (cases v) simp_all
qed

lemma send_loop_throws:
  "c \<in> set cs \<Longrightarrow> \<not> well_shaped c \<Longrightarrow>
   fst (send_loop H client message cs results calls) = Inl TypeError"
proof (induction cs arbitrary: results calls)
  case Nil
  then show ?case by simp
next
  case (Cons a cs)
  show ?case
  proof (cases "well_shaped a")
    case True
    with Cons.prems have "c \<in> set cs" by auto
    from Cons.IH [OF this Cons.prems(2)] show ?thesis
      by (simp only: send_loop_step [OF True])
  next
    case False
    show ?thesis by (simp only: not_well_shaped_throws [OF False] fst_conv)
  qed
qed

lemma send_loop_calls_prefix:
  "snd (send_loop H client message cs results calls) =
   snd (send_loop H client message (takeWhile well_shaped cs) results calls)"
proof (induction cs arbitrary: results calls)
  case Nil
  then show ?case by simp
next
  case (Cons a cs)
  show ?case
  proof (cases "well_shaped a")
    case True
    then have "takeWhile well_shaped (a # cs) = a # takeWhile well_shaped cs" by simp
    then show ?thesis
      by (simp only: send_loop_step [OF True] Cons.IH)
  next
    case False
    then have "takeWhile well_shaped (a # cs) = []" by simp
    then show ?thesis
      by (simp only: not_well_shaped_throws [OF False] send_loop.simps(1) snd_conv)
  qed
qed

lemma string_phone_if_well_shaped: "well_shaped c \<Longrightarrow> string_phone c"
  by (cases c) (auto split: option.splits jv.splits)

lemma sendAll_throws:
  assumes "c \<in> set cs" and "\<not> well_shaped c"
  shows "sendAll H client message cs calls =
           (Inl TypeError,
            calls @ map (call_for H message)
                      (filter (\<lambda>c. validatePhoneNumber (contact_phone c)) (takeWhile well_shaped cs)))"
proof -
  have ok: "list_all well_shaped (takeWhile well_shaped cs)"
    by (simp add: list_all_iff) (meson set_takeWhileD)
  have "snd (send_loop H client message cs [] calls) =
          snd (send_loop H client message (takeWhile well_shaped cs) [] calls)"
    by (rule send_loop_calls_prefix)
  also have "\<dots> = calls_upto H message calls (takeWhile well_shaped cs)
                     (length (takeWhile well_shaped cs))"
    by (simp add: send_loop_spec [OF ok] spec_sendAll_calls)
  finally have calls: "snd (send_loop H client message cs [] calls) =
      calls @ map (call_for H message)
                (filter (\<lambda>c. validatePhoneNumber (contact_phone c)) (takeWhile well_shaped cs))"
    by (simp add: calls_upto_def)
  from send_loop_throws [OF assms, of H client message "[]" calls] calls
  show ?thesis by (simp add: sendAll_def prod_eq_iff)
qed

text \<open>
  C9. The isolation of one contact from the next does not cover malformed contacts.
  When a request has passed the validation and the dedup step, and one of its contacts
  is neither a string nor an object whose \<open>phone\<close> is a string, the loop over the
  contacts throws and stops there (the calls made are those for the contacts before
  the first one that throws), no result is returned, and the response is 500 "Internal
  server error".
\<close>

theorem malformed_contact_internal_error:
  assumes "validate_request H req = Inr (cs, lat, lng)"
    and "alertKey H (timestamp req) lat lng = Inr key"
    and "\<not> map_has (recentAlerts st) key"
    and "c \<in> set cs"
    and "\<not> string_phone c"
  shows "fst (send_alert H client clk req st) = (500, ErrorBody ''Internal server error'')
         \<and> sendAll H client message cs calls =
             (Inl TypeError,
              calls @ map (call_for H message)
                        (filter (\<lambda>c. validatePhoneNumber (contact_phone c))
                           (takeWhile well_shaped cs)))"
proof -
  from assms(5) have bad: "\<not> well_shaped c"
    using string_phone_if_well_shaped by blast
  have loop: "\<And>message calls. fst (sendAll H client message cs calls) = Inl TypeError"
    by (simp add: sendAll_throws [OF assms(4) bad])
  have "fst (send_alert H client clk req st) = (500, ErrorBody ''Internal server error'')"
  proof (cases "composeAlert H (userName req) lat lng (timestamp req)")
    case (Inl e)
    with assms(1,2,3) show ?thesis
      by (simp add: send_alert_def dedup_fresh Let_def)
  next
    case (Inr msg)
    obtain r calls' where run: "sendAll H client msg cs (twilio_calls st) = (r, calls')"
      by (cases "sendAll H client msg cs (twilio_calls st)")
    with loop [of msg "twilio_calls st"] have "r = Inl TypeError" by simp
    with assms(1,2,3) Inr run show ?thesis
      by (simp add: send_alert_def dedup_fresh Let_def)
  qed
  with sendAll_throws [OF assms(4) bad] show ?thesis by simp
qed

lemma alert1_composed:
  "composeAlert int_host (userName alert1) 37 (- 122) (timestamp alert1) = Inr ''EMERGENCY ALERT for Alice''"
  by (simp add: composeAlert_def js_or_def alert1_def int_host_def)

lemma state0_fresh: "\<not> map_has (recentAlerts state0) key"
  by (simp add: state0_def map_has_def)

theorem malformed_contact_internal_error_witness:
  "fst (send_alert int_host twilio_up (clock_at 1000)
          (alert1\<lparr>contacts := JArr nameless_contacts\<rparr>) state0)
     = (500, ErrorBody ''Internal server error'')
   \<and> sendAll int_host twilio_up ''help'' nameless_contacts []
     = (Inl TypeError,
        [\<lparr>msg_body = ''help'', msg_from = ''whatsapp:+14155238886'',
          msg_to = ''whatsapp:+14155550001''\<rparr>])"
proof -
  have v: "validate_request int_host (alert1\<lparr>contacts := JArr nameless_contacts\<rparr>)
             = Inr (nameless_contacts, 37, - 122)"
    by (simp add: validate_request_def alert1_def number_prop_def nameless_contacts_def)
  have k: "alertKey int_host (timestamp (alert1\<lparr>contacts := JArr nameless_contacts\<rparr>)) 37 (- 122)
             = Inr ''t1-37.000--122.000''"
    using alert1_key by simp
  have m: "JObj [(''name'', JStr ''Bob'')] \<in> set nameless_contacts"
    by (simp add: nameless_contacts_def)
  have b: "\<not> string_phone (JObj [(''name'', JStr ''Bob'')] :: int jv)"
    by simp
  from malformed_contact_internal_error [OF v k state0_fresh m b, of twilio_up "clock_at 1000" "''help''" "[]"]
  show ?thesis
    by (simp add: nameless_contacts_def call_for_def FROM_NUMBER_def int_host_def contact_eval)
qed

section \<open>The response of the alert route\<close>

lemma send_alert_dispatched:
  assumes "validate_request H req = Inr (cs, lat, lng)"
    and "alertKey H (timestamp req) lat lng = Inr key"
    and "\<not> map_has (recentAlerts st) key"
    and "composeAlert H (userName req) lat lng (timestamp req) = Inr message"
    and "sendAll H client message cs (twilio_calls st) = (Inr results, calls)"
  shows "fst (send_alert H client clk req st) =
           (200, AlertBody True (summary results) results (t_reply clk))"
  using assms by (simp add: send_alert_def dedup_fresh Let_def)

text \<open>
  C5, for requests whose message text composes and whose contacts are bare strings or
  objects with a non-empty string \<open>phone\<close>. Such a request, once it has passed the
  validation and is not a duplicate, is answered 200 with \<open>success = True\<close>, one
  result per contact, and the message "Alerts sent: N successful, M failed", where N
  and M count the results with \<open>success\<close> true and false and N + M is the number of
  contacts, whatever the outcome of each send.
\<close>

theorem alert_outcome:
  assumes "validate_request H req = Inr (cs, lat, lng)"
    and "alertKey H (timestamp req) lat lng = Inr key"
    and "\<not> map_has (recentAlerts st) key"
    and "composeAlert H (userName req) lat lng (timestamp req) = Inr message"
    and "list_all well_shaped cs"
  shows "\<exists>results.
           fst (sendAll H client message cs (twilio_calls st)) = Inr results
           \<and> length results = length cs
           \<and> fst (send_alert H client clk req st) =
               (200,
                AlertBody True
                  (''Alerts sent: '' @ decimal (length (filter (\<lambda>r. success r) results))
                     @ '' successful, '' @ decimal (length (filter (\<lambda>r. \<not> success r) results))
                     @ '' failed'')
                  results (t_reply clk))
           \<and> length (filter (\<lambda>r. success r) results)
               + length (filter (\<lambda>r. \<not> success r) results) = length cs"
proof -
  let ?rs = "fst (spec_sendAll H client message cs (twilio_calls st))"
  have run: "sendAll H client message cs (twilio_calls st) =
               (Inr ?rs, snd (spec_sendAll H client message cs (twilio_calls st)))"
    using send_loop_spec [OF assms(5), of H client message "[]" "twilio_calls st"]
    by (simp add: sendAll_def)
  have len: "length ?rs = length cs" by (rule spec_sendAll_length)
  have reply: "fst (send_alert H client clk req st) =
                 (200, AlertBody True (summary ?rs) ?rs (t_reply clk))"
    by (rule send_alert_dispatched [OF assms(1-4) run])
  have count: "length (filter (\<lambda>r. success r) ?rs) + length (filter (\<lambda>r. \<not> success r) ?rs) = length cs"
    using sum_length_filter_compl [of "\<lambda>r. success r" ?rs] len by simp
  from run len reply count show ?thesis
    by (simp add: summary_def Let_def)
qed

lemma decimal_0: "decimal 0 = ''0''"
  by (simp add: decimal.simps)

lemma decimal_3: "decimal 3 = ''3''"
  by (simp add: decimal.simps)

theorem alert_outcome_witness:
  "list_all well_shaped three_contacts
   \<and> (\<exists>results.
         fst (sendAll int_host twilio_down ''EMERGENCY ALERT for Alice'' three_contacts []) = Inr results
         \<and> length results = 3
         \<and> length (filter (\<lambda>r. success r) results) = 0
         \<and> fst (send_alert int_host twilio_down (clock_at 1000)
                  (alert1\<lparr>contacts := JArr three_contacts\<rparr>) state0)
             = (200, AlertBody True ''Alerts sent: 0 successful, 3 failed'' results 1000))"
proof -
  let ?req = "alert1\<lparr>contacts := JArr three_contacts\<rparr>"
  have shaped: "list_all well_shaped three_contacts"
    by (simp add: three_contacts_def)
  have v: "validate_request int_host ?req = Inr (three_contacts, 37, - 122)"
    by (simp add: validate_request_def alert1_def number_prop_def three_contacts_def)
  have k: "alertKey int_host (timestamp ?req) 37 (- 122) = Inr ''t1-37.000--122.000''"
    using alert1_key by simp
  have c: "composeAlert int_host (userName ?req) 37 (- 122) (timestamp ?req)
             = Inr ''EMERGENCY ALERT for Alice''"
    using alert1_composed by simp
  from alert_outcome [OF v k state0_fresh c shaped, of twilio_down "clock_at 1000"]
  obtain results where
    run: "fst (sendAll int_host twilio_down ''EMERGENCY ALERT for Alice'' three_contacts
                 (twilio_calls state0)) = Inr results"
    and len: "length results = length three_contacts"
    and reply: "fst (send_alert int_host twilio_down (clock_at 1000) ?req state0) =
        (200,
         AlertBody True
           (''Alerts sent: '' @ decimal (length (filter (\<lambda>r. success r) results))
              @ '' successful, '' @ decimal (length (filter (\<lambda>r. \<not> success r) results))
              @ '' failed'')
           results (t_reply (clock_at 1000)))"
    and total: "length (filter (\<lambda>r. success r) results)
                  + length (filter (\<lambda>r. \<not> success r) results) = length three_contacts"
    by blast
  have "fst (sendAll int_host twilio_down ''EMERGENCY ALERT for Alice'' three_contacts []) =
      Inr [\<lparr>success = False, sid = None, status = None, error = Some ''Authentication Error'',
            phone = ''+14155550001'', name = JStr ''Emergency Contact''\<rparr>,
           \<lparr>success = False, sid = None, status = None, error = Some ''Invalid phone number format'',
            phone = ''abc'', name = JStr ''Emergency Contact''\<rparr>,
           \<lparr>success = False, sid = None, status = None, error = Some ''Authentication Error'',
            phone = ''+14155550003'', name = JStr ''Bob''\<rparr>]"
    by (simp add: sendAll_def three_contacts_def resolve_contact_def js_or_def
          sendWhatsAppMessage_def twilio_down_def contact_eval int_host_def)
  with run have results: "results =
         [\<lparr>success = False, sid = None, status = None, error = Some ''Authentication Error'',
            phone = ''+14155550001'', name = JStr ''Emergency Contact''\<rparr>,
           \<lparr>success = False, sid = None, status = None, error = Some ''Invalid phone number format'',
            phone = ''abc'', name = JStr ''Emergency Contact''\<rparr>,
           \<lparr>success = False, sid = None, status = None, error = Some ''Authentication Error'',
            phone = ''+14155550003'', name = JStr ''Bob''\<rparr>]"
    by (simp add: state0_def)
  have none: "length (filter (\<lambda>r. success r) results) = 0"
    by (simp add: results)
  have all: "length (filter (\<lambda>r. \<not> success r) results) = 3"
    by (simp add: results)
  from shaped run len reply none all show ?thesis
    by (simp add: state0_def three_contacts_def clock_at_def decimal_0 decimal_3)
qed

text \<open>
  A request that passes the validation and is not a duplicate, and is answered 500: its
  only contact is \<open>null\<close>.
\<close>

theorem null_contact_internal_error:
  "validate_request int_host (alert1\<lparr>contacts := JArr [JNull]\<rparr>) = Inr ([JNull], 37, - 122)
   \<and> recentAlerts state0 = []
   \<and> fst (send_alert int_host twilio_up (clock_at 1000) (alert1\<lparr>contacts := JArr [JNull]\<rparr>) state0)
       = (500, ErrorBody ''Internal server error'')"
proof -
  let ?req = "alert1\<lparr>contacts := JArr [JNull]\<rparr>"
  have v: "validate_request int_host ?req = Inr ([JNull], 37, - 122)"
    by (simp add: validate_request_def alert1_def number_prop_def)
  have k: "alertKey int_host (timestamp ?req) 37 (- 122) = Inr ''t1-37.000--122.000''"
    using alert1_key by simp
  have c: "composeAlert int_host (userName ?req) 37 (- 122) (timestamp ?req)
             = Inr ''EMERGENCY ALERT for Alice''"
    using alert1_composed by simp
  have s: "sendAll int_host twilio_up ''EMERGENCY ALERT for Alice'' [JNull] (twilio_calls state0)
             = (Inl TypeError, twilio_calls state0)"
    by (simp add: sendAll_def resolve_contact_def)
  have "fst (send_alert int_host twilio_up (clock_at 1000) ?req state0)
          = (500, ErrorBody ''Internal server error'')"
    using v k c s state0_fresh [of "''t1-37.000--122.000''"]
    by (simp add: send_alert_def dedup_fresh Let_def)
  with v show ?thesis by (simp add: state0_def)
qed

section \<open>The test route\<close>

text \<open>
  C10, for string phones. A missing or falsy \<open>phone\<close> is answered 400 "Phone number
  required" and the capability is not invoked. For every non-empty string the route
  does not consult \<open>validate\<close>: the phone is normalised in the route and again inside
  \<open>sendWhatsAppMessage\<close>, and the capability is invoked once with that destination,
  also for a phone that \<open>validate\<close> rejects.
\<close>

theorem test_message_presence_only:
  "(\<not> truthy H (req_phone req) \<longrightarrow>
      test_message H client req st = ((400, ErrorBody ''Phone number required''), st))
   \<and> (req_phone req = JStr p \<and> p \<noteq> [] \<longrightarrow>
        (let call = \<lparr>msg_body = test_text H, msg_from = FROM_NUMBER H,
                     msg_to = ''whatsapp:'' @ formatPhoneNumber (formatPhoneNumber p)\<rparr>;
             result = (case client (twilio_calls st) call of
                         Resolved i s \<Rightarrow> \<lparr>success = True, sid = Some i, status = Some s, error = None\<rparr>
                       | Rejected m \<Rightarrow> \<lparr>success = False, sid = None, status = None, error = Some m\<rparr>)
         in test_message H client req st =
              ((200, TestBody (success result)
                       (if success result then ''Test message sent!''
                        else ''Failed to send test message'')
                       result),
               st\<lparr>twilio_calls := twilio_calls st @ [call]\<rparr>)))"
  by (simp add: test_message_def sendWhatsAppMessage_def Let_def split: twilio_outcome.splits)

theorem test_message_presence_only_witness:
  "\<not> validatePhoneNumber ''abc''
   \<and> test_message int_host twilio_up \<lparr>req_phone = JStr ''abc'', req_name = JUndefined\<rparr> state0
       = ((200, TestBody True ''Test message sent!''
                  \<lparr>success = True, sid = Some ''SM1'', status = Some ''queued'', error = None\<rparr>),
          \<lparr>recentAlerts = [],
           twilio_calls = [\<lparr>msg_body = ''Test Message'', msg_from = ''whatsapp:+14155238886'',
                            msg_to = ''whatsapp:+''\<rparr>]\<rparr>)
   \<and> test_message int_host twilio_up \<lparr>req_phone = JUndefined, req_name = JUndefined\<rparr> state0
       = ((400, ErrorBody ''Phone number required''), state0)"
proof -
  have twice: "formatPhoneNumber (formatPhoneNumber ''abc'') = ''+''"
    by (simp add: formatPhoneNumber_eq is_digit_def)
  from test_message_presence_only
         [of int_host "\<lparr>req_phone = JStr ''abc'', req_name = JUndefined\<rparr>" twilio_up state0 "''abc''"]
       test_message_presence_only
         [of int_host "\<lparr>req_phone = JUndefined, req_name = JUndefined\<rparr>" twilio_up state0 "''abc''"]
       invalid_abc twice
  show ?thesis
    by (simp add: Let_def twilio_up_def int_host_def FROM_NUMBER_def state0_def)
qed

text \<open>
  A truthy \<open>phone\<close> that is not a string: \<open>formatPhoneNumber\<close> throws, the route
  answers 500 and the capability is not invoked.
\<close>

theorem test_message_number_phone:
  "truthy int_host (JNum 5)
   \<and> test_message int_host twilio_up \<lparr>req_phone = JNum 5, req_name = JUndefined\<rparr> state0
       = ((500, ErrorBody ''Failed to send test message''), state0)"
  by (simp add: test_message_def int_host_def)


end
